theory Spec2Isabelle
  imports Complex_Main "HOL-Library.Log_Nat"
begin

section \<open>Python numbers as the interpreter computes them\<close>

text \<open>
  \<^verbatim>\<open>reaction.py\<close> mixes Python ints with floats: \<^verbatim>\<open>expire * EXPIRE_TIME_FACTOR\<close>,
  \<^verbatim>\<open>int(self._gradient_count - (event.percent_complete*self._gradient_count))\<close> and
  \<^verbatim>\<open>event.percent_complete <= 0.15\<close>. A Python float is an IEEE 754 binary64 value. Its
  finite values are rationals \<open>m * 2 ^ e\<close> with \<open>\<bar>m\<bar> < 2 ^ 53\<close> and \<open>- 1074 \<le> e\<close>; every
  arithmetic result is the exact result rounded to the nearest such value, ties to the even
  mantissa. The rounding is written out here, so that an index computed below is the index
  the interpreter computes, not the one exact arithmetic would give.
  The two zeros of binary64 are one value here: no operation used by the program tells
  them apart.
\<close>

definition round_half_even :: "rat \<Rightarrow> int" where
  "round_half_even x =
     (let f = \<lfloor>x\<rfloor>; d = x - of_int f
      in if d < 1 / 2 then f
         else if 1 / 2 < d then f + 1
         else if even f then f else f + 1)"

text \<open>\<open>ilog2 x\<close> is the binary exponent of a positive rational: \<open>2 ^ ilog2 x \<le> x < 2 ^ (ilog2 x + 1)\<close>.\<close>

definition ilog2 :: "rat \<Rightarrow> int" where
  "ilog2 x =
     (let (a, b) = quotient_of x; k = bitlen a - bitlen b
      in if 2 powi k \<le> x then k else k - 1)"

text \<open>The exponent of the unit in the last place: 53 significant bits, subnormals below \<open>2 ^ - 1022\<close>.\<close>

definition ulp_exponent :: "rat \<Rightarrow> int" where
  "ulp_exponent x = max (ilog2 \<bar>x\<bar> - 52) (- 1074)"

definition round_double :: "rat \<Rightarrow> rat" where
  "round_double x =
     (if x = 0 then 0
      else of_int (round_half_even (x / 2 powi ulp_exponent x)) * 2 powi ulp_exponent x)"

definition is_double :: "rat \<Rightarrow> bool" where
  "is_double x \<longleftrightarrow> round_double x = x"

definition DBL_MAX :: rat where
  "DBL_MAX = (2 ^ 53 - 1) * 2 ^ 971"

datatype pyfloat = Finite rat | Infinity bool | NaN

text \<open>\<open>Infinity True\<close> is \<^verbatim>\<open>-inf\<close>. A result whose rounding exceeds \<open>DBL_MAX\<close> overflows.\<close>

definition to_float :: "rat \<Rightarrow> pyfloat" where
  "to_float r =
     (let v = round_double r
      in if DBL_MAX < \<bar>v\<bar> then Infinity (v < 0) else Finite v)"

fun float_mul :: "pyfloat \<Rightarrow> pyfloat \<Rightarrow> pyfloat" where
  "float_mul (Finite a) (Finite b) = to_float (a * b)"
| "float_mul NaN _ = NaN"
| "float_mul _ NaN = NaN"
| "float_mul (Infinity s) (Finite b) = (if b = 0 then NaN else Infinity (s \<noteq> (b < 0)))"
| "float_mul (Finite a) (Infinity t) = (if a = 0 then NaN else Infinity ((a < 0) \<noteq> t))"
| "float_mul (Infinity s) (Infinity t) = Infinity (s \<noteq> t)"

fun float_sub :: "pyfloat \<Rightarrow> pyfloat \<Rightarrow> pyfloat" where
  "float_sub (Finite a) (Finite b) = to_float (a - b)"
| "float_sub NaN _ = NaN"
| "float_sub _ NaN = NaN"
| "float_sub (Infinity s) (Finite b) = Infinity s"
| "float_sub (Finite a) (Infinity t) = Infinity (\<not> t)"
| "float_sub (Infinity s) (Infinity t) = (if s = t then NaN else Infinity s)"

fun float_le :: "pyfloat \<Rightarrow> pyfloat \<Rightarrow> bool" where
  "float_le (Finite a) (Finite b) = (a \<le> b)"
| "float_le NaN _ = False"
| "float_le _ NaN = False"
| "float_le (Infinity s) (Finite b) = s"
| "float_le (Finite a) (Infinity t) = (\<not> t)"
| "float_le (Infinity s) (Infinity t) = (s \<or> \<not> t)"

datatype py_error = IndexError | KeyError | ValueError | OverflowError | TraitError

text \<open>\<^verbatim>\<open>int(x)\<close> truncates toward zero and raises on a non-finite float.\<close>

fun py_int :: "pyfloat \<Rightarrow> py_error + int" where
  "py_int (Finite r) = Inr (if 0 \<le> r then \<lfloor>r\<rfloor> else \<lceil>r\<rceil>)"
| "py_int (Infinity s) = Inl OverflowError"
| "py_int NaN = Inl ValueError"

text \<open>
  An int operand of a mixed operation is converted first; an int too large for a float
  raises \<^verbatim>\<open>OverflowError\<close>.
\<close>

definition float_of_int :: "int \<Rightarrow> py_error + pyfloat" where
  "float_of_int i =
     (case to_float (of_int i) of
        Finite v \<Rightarrow> Inr (Finite v)
      | _ \<Rightarrow> Inl OverflowError)"

text \<open>A float literal of the source text denotes the double nearest to its decimal value.\<close>

definition float_literal :: "rat \<Rightarrow> pyfloat" where
  "float_literal r = to_float r"

text \<open>\<^verbatim>\<open>xs[i]\<close>: a negative index counts from the end, an index out of range raises.\<close>

definition list_getitem :: "'a list \<Rightarrow> int \<Rightarrow> py_error + 'a" where
  "list_getitem xs i =
     (if 0 \<le> i \<and> i < int (length xs) then Inr (xs ! nat i)
      else if i < 0 \<and> - int (length xs) \<le> i then Inr (xs ! nat (int (length xs) + i))
      else Inl IndexError)"

section \<open>The data of the reaction effect\<close>

text \<open>
  A color of the color library is its red, green, blue and alpha components; the library
  compares a color with a 4-tuple componentwise, which is how \<^verbatim>\<open>bg_color == (0, 0, 0, 1)\<close>
  is read. A color trait holds a color or \<^verbatim>\<open>None\<close>.
\<close>

type_synonym rgba = "rat \<times> rat \<times> rat \<times> rat"

text \<open>
  What is handed to \<^verbatim>\<open>ColorUtils.color_scheme\<close>: \<^verbatim>\<open>None\<close>, an HTML color string (the
  constructor passes \<^verbatim>\<open>"#000000"\<close> and \<^verbatim>\<open>"#FFFFFF"\<close>) or a color object (the trait values).
\<close>

datatype color_arg = ArgNone | ArgStr string | ArgColor rgba

fun trait_arg :: "rgba option \<Rightarrow> color_arg" where
  "trait_arg None = ArgNone"
| "trait_arg (Some c) = ArgColor c"

text \<open>
  \<^verbatim>\<open>ColorUtils.color_scheme(color=, base_color=, steps=)\<close> lives in \<^verbatim>\<open>uchroma/color.py\<close>, which
  is missing from the sources. The functions below take it as the parameter \<open>cs\<close>,
  with the arguments in the order color, base color, steps.
\<close>

type_synonym color_scheme = "color_arg \<Rightarrow> color_arg \<Rightarrow> nat \<Rightarrow> rgba list"

record coord =
  coord_y :: int
  coord_x :: int

record key_event =
  coords :: "coord list option"
  percent_complete :: pyfloat
  data :: "string \<rightharpoonup> rgba option"

datatype log_record = LogError string key_event

text \<open>The layer is the sequence of \<^verbatim>\<open>put(row, col, color)\<close> calls it has received.\<close>

type_synonym layer = "(int \<times> int \<times> rgba option) list"

definition put :: "layer \<Rightarrow> int \<Rightarrow> int \<Rightarrow> rgba option \<Rightarrow> layer" where
  "put l row col c = l @ [(row, col, c)]"

text \<open>
  The fields of a \<^verbatim>\<open>Reaction\<close> object. \<open>init_speed\<close> and \<open>init_colors\<close> are attributes that exist
  only once an observer has run (\<^verbatim>\<open>hasattr\<close>); \<open>gradient = None\<close> and
  \<open>key_expire_time = None\<close> stand for the time before the first assignment.
  \<open>logger\<close> collects the records sent to the logger and \<open>scheme_calls\<close> the argument triples of
  the calls made to \<^verbatim>\<open>ColorUtils.color_scheme\<close>, both in order.
\<close>

record reaction =
  fps :: int
  speed :: int
  background_color :: "rgba option"
  color :: "rgba option"
  init_speed :: bool
  init_colors :: bool
  key_expire_time :: "pyfloat option"
  gradient :: "rgba list option"
  gradient_count :: nat
  logger :: "log_record list"
  scheme_calls :: "(color_arg \<times> color_arg \<times> nat) list"

definition DEFAULT_SPEED :: int where
  "DEFAULT_SPEED = 6"

definition MAX_SPEED :: int where
  "MAX_SPEED = 9"

definition EXPIRE_TIME_FACTOR :: pyfloat where
  "EXPIRE_TIME_FACTOR = float_literal (25 / 100)"

definition REACT_COLOR_KEY :: string where
  "REACT_COLOR_KEY = ''reaction_color''"

section \<open>The operations of \<^verbatim>\<open>Reaction\<close>\<close>

definition set_speed :: "int \<Rightarrow> reaction \<Rightarrow> py_error + reaction" where
  "set_speed v s =
     (let expire = MAX_SPEED + 1 - v
      in case float_of_int expire of
           Inl err \<Rightarrow> Inl err
         | Inr f \<Rightarrow> Inr (s\<lparr>key_expire_time := Some (float_mul f EXPIRE_TIME_FACTOR)\<rparr>))"

record 'v change =
  name :: string
  old :: 'v
  new :: 'v

definition change_speed :: "int change \<Rightarrow> reaction \<Rightarrow> py_error + reaction" where
  "change_speed ch s = set_speed (new ch) (s\<lparr>init_speed := True\<rparr>)"

definition set_colors :: "color_scheme \<Rightarrow> color_arg \<Rightarrow> color_arg \<Rightarrow> reaction \<Rightarrow> reaction" where
  "set_colors cs bg_color c s =
     (let g = cs c bg_color 100
      in s\<lparr>gradient := Some g,
            gradient_count := length g,
            scheme_calls := scheme_calls s @ [(c, bg_color, 100)]\<rparr>)"

text \<open>
  \<^verbatim>\<open>_update_colors\<close>. The \<^verbatim>\<open>with self.hold_trait_notifications()\<close> around its body defers the
  notifications of traits assigned inside the block; the body assigns none (\<open>init_colors\<close>,
  \<open>_gradient\<close> and \<open>_gradient_count\<close> are plain attributes), so the block is the body itself.
\<close>

definition update_colors :: "color_scheme \<Rightarrow> rgba option change \<Rightarrow> reaction \<Rightarrow> reaction" where
  "update_colors cs ch s =
     (if new ch = None then s
      else let s1 = s\<lparr>init_colors := True\<rparr>;
               bg_color = (if background_color s1 = Some (0, 0, 0, 1) then ArgNone
                           else trait_arg (background_color s1))
           in set_colors cs bg_color (trait_arg (color s1)) s1)"

text \<open>
  \<^verbatim>\<open>__init__\<close>, after \<^verbatim>\<open>super().__init__\<close> has returned: the argument is the object as the
  superclass constructor left it, observers possibly having run already.
\<close>

definition init_reaction :: "color_scheme \<Rightarrow> reaction \<Rightarrow> py_error + reaction" where
  "init_reaction cs s =
     (let s1 = s\<lparr>fps := 30\<rparr>
      in case (if \<not> init_speed s1 then set_speed DEFAULT_SPEED s1 else Inr s1) of
           Inl err \<Rightarrow> Inl err
         | Inr s2 \<Rightarrow>
             Inr (if \<not> init_colors s2 then set_colors cs (ArgStr ''#000000'') (ArgStr ''#FFFFFF'') s2
                  else s2))"

text \<open>
  \<^verbatim>\<open>REACT_COLOR_KEY not in events\<close> asks whether the string is an element of the batch.
  The batch holds event objects and the key is a string, so both are put into one type of
  Python values for the comparison.
\<close>

datatype py_value = PyStr string | PyEvent key_event

definition py_in :: "py_value \<Rightarrow> py_value list \<Rightarrow> bool" where
  "py_in v vs \<longleftrightarrow> v \<in> set vs"

text \<open>
  The body of the \<^verbatim>\<open>if\<close> in the loop of \<^verbatim>\<open>_process_events\<close>, for the table \<open>g\<close>: first
  \<^verbatim>\<open>idx = int(self._gradient_count - (event.percent_complete*self._gradient_count))\<close>, then
  the choice between the background color and the table entry.
\<close>

definition gradient_idx :: "reaction \<Rightarrow> key_event \<Rightarrow> py_error + int" where
  "gradient_idx s event =
     (case float_of_int (int (gradient_count s)) of
        Inl err \<Rightarrow> Inl err
      | Inr n \<Rightarrow> py_int (float_sub n (float_mul (percent_complete event) n)))"

definition resolve_color :: "reaction \<Rightarrow> rgba list \<Rightarrow> key_event \<Rightarrow> py_error + key_event" where
  "resolve_color s g event =
     (case gradient_idx s event of
        Inl err \<Rightarrow> Inl err
      | Inr idx \<Rightarrow>
          if float_le (percent_complete event) (float_literal (15 / 100))
          then Inr (event\<lparr>data := (data event)(REACT_COLOR_KEY \<mapsto> background_color s)\<rparr>)
          else (case list_getitem g idx of
                  Inl err \<Rightarrow> Inl err
                | Inr c \<Rightarrow> Inr (event\<lparr>data := (data event)(REACT_COLOR_KEY \<mapsto> Some c)\<rparr>)))"

definition no_coords :: "layer \<Rightarrow> key_event \<Rightarrow> reaction \<Rightarrow> layer \<times> reaction" where
  "no_coords l event s =
     (l, s\<lparr>logger := logger s @ [LogError ''No coordinates available: %s'' event]\<rparr>)"

definition react_keys :: "layer \<Rightarrow> key_event \<Rightarrow> reaction \<Rightarrow> py_error + layer \<times> reaction" where
  "react_keys l event s =
     (case coords event of
        None \<Rightarrow> Inr (no_coords l event s)
      | Some cds \<Rightarrow>
          if length cds = 0 then Inr (no_coords l event s)
          else (case data event REACT_COLOR_KEY of
                  None \<Rightarrow> Inl KeyError
                | Some react_color \<Rightarrow>
                    Inr (foldl (\<lambda>l' c. put l' (coord_y c) (coord_x c) react_color) l cds, s)))"

text \<open>
  The loop of \<^verbatim>\<open>_process_events\<close> over the events still to visit; \<open>events\<close> is the whole
  batch, which the membership test reads in every iteration. An event object is changed in
  place by the source; here the changed events are returned, in batch order.
\<close>

fun process_loop ::
  "rgba list \<Rightarrow> key_event list \<Rightarrow> layer \<Rightarrow> key_event list \<Rightarrow> reaction
     \<Rightarrow> py_error + layer \<times> key_event list \<times> reaction" where
  "process_loop g events l [] s = Inr (l, [], s)"
| "process_loop g events l (event # rest) s =
     (case (if \<not> py_in (PyStr REACT_COLOR_KEY) (map PyEvent events)
            then resolve_color s g event else Inr event) of
        Inl err \<Rightarrow> Inl err
      | Inr event' \<Rightarrow>
          (case react_keys l event' s of
             Inl err \<Rightarrow> Inl err
           | Inr (l', s') \<Rightarrow>
               (case process_loop g events l' rest s' of
                  Inl err \<Rightarrow> Inl err
                | Inr (l'', rest', s'') \<Rightarrow> Inr (l'', event' # rest', s''))))"

definition process_events ::
  "layer \<Rightarrow> key_event list \<Rightarrow> reaction \<Rightarrow> py_error + layer \<times> key_event list \<times> reaction" where
  "process_events l events s =
     (case gradient s of
        None \<Rightarrow> Inr (l, events, s)
      | Some g \<Rightarrow> process_loop g events l events s)"

text \<open>\<^verbatim>\<open>draw\<close>; \<open>events\<close> is the batch that \<^verbatim>\<open>await self.get_input_events()\<close> returned.\<close>

definition draw ::
  "layer \<Rightarrow> key_event list \<Rightarrow> reaction \<Rightarrow> py_error + bool \<times> layer \<times> key_event list \<times> reaction" where
  "draw l events s =
     (if 0 < length events
      then (case process_events l events s of
              Inl err \<Rightarrow> Inl err
            | Inr (l', events', s') \<Rightarrow> Inr (True, l', events', s'))
      else Inr (False, l, events, s))"

section \<open>Change notifications and the life of an object\<close>

text \<open>
  The observers are called by the trait framework, which is no part of the repository.
  A transaction that assigns \<open>background_color\<close> and \<open>color\<close> while notifications are held
  stores both values first and then calls the observers of each trait whose value has
  changed, once per trait, in the order of assignment. \<^verbatim>\<open>_update_colors\<close> observes both
  traits.
\<close>

definition update_both :: "color_scheme \<Rightarrow> rgba option \<Rightarrow> rgba option \<Rightarrow> reaction \<Rightarrow> reaction" where
  "update_both cs bg fg s =
     (let s1 = s\<lparr>background_color := bg, color := fg\<rparr>;
          s2 = (if background_color s \<noteq> bg
                then update_colors cs \<lparr>name = ''background_color'', old = background_color s, new = bg\<rparr> s1
                else s1)
      in if color s \<noteq> fg
         then update_colors cs \<lparr>name = ''color'', old = color s, new = fg\<rparr> s2
         else s2)"

text \<open>
  For statements about every state an object can be in, the framework is left open: a
  notification may arrive with any change and with any values of the two color traits.
\<close>

datatype notification =
    ColorNotify "rgba option" "rgba option" "rgba option change"
  | SpeedNotify "int change"

datatype action = Notify notification | Frame layer "key_event list"

fun notify :: "color_scheme \<Rightarrow> notification \<Rightarrow> reaction \<Rightarrow> py_error + reaction" where
  "notify cs (ColorNotify bg fg ch) s = Inr (update_colors cs ch (s\<lparr>background_color := bg, color := fg\<rparr>))"
| "notify cs (SpeedNotify ch) s = change_speed ch (s\<lparr>speed := new ch\<rparr>)"

fun notify_all :: "color_scheme \<Rightarrow> notification list \<Rightarrow> reaction \<Rightarrow> py_error + reaction" where
  "notify_all cs [] s = Inr s"
| "notify_all cs (n # ns) s =
     (case notify cs n s of Inl err \<Rightarrow> Inl err | Inr s' \<Rightarrow> notify_all cs ns s')"

fun act :: "color_scheme \<Rightarrow> action \<Rightarrow> reaction \<Rightarrow> py_error + reaction" where
  "act cs (Notify n) s = notify cs n s"
| "act cs (Frame l events) s =
     (case draw l events s of Inl err \<Rightarrow> Inl err | Inr (changed, l', events', s') \<Rightarrow> Inr s')"

fun run :: "color_scheme \<Rightarrow> action list \<Rightarrow> reaction \<Rightarrow> py_error + reaction" where
  "run cs [] s = Inr s"
| "run cs (a # as) s =
     (case act cs a s of Inl err \<Rightarrow> Inl err | Inr s' \<Rightarrow> run cs as s')"

text \<open>
  An object before any observer and before the body of \<^verbatim>\<open>__init__\<close> has run; \<open>bg\<close> and
  \<open>fg\<close> are the defaults of the two color traits.
\<close>

definition fresh :: "rgba option \<Rightarrow> rgba option \<Rightarrow> reaction" where
  "fresh bg fg =
     \<lparr>fps = 0, speed = DEFAULT_SPEED, background_color = bg, color = fg,
      init_speed = False, init_colors = False, key_expire_time = None,
      gradient = None, gradient_count = 0, logger = [], scheme_calls = []\<rparr>"

text \<open>
  Construction: the superclass constructor may deliver notifications (the source remarks
  that observers can be called before \<^verbatim>\<open>__init__\<close>), then the body of \<^verbatim>\<open>__init__\<close> runs.
\<close>

definition construct ::
  "color_scheme \<Rightarrow> rgba option \<Rightarrow> rgba option \<Rightarrow> notification list \<Rightarrow> py_error + reaction" where
  "construct cs bg fg early =
     (case notify_all cs early (fresh bg fg) of
        Inl err \<Rightarrow> Inl err
      | Inr s \<Rightarrow> init_reaction cs s)"

text \<open>
  The invariant of the table: once colors have been set there is a table, a table has 100
  entries and \<open>gradient_count\<close> agrees, and every call of \<^verbatim>\<open>color_scheme\<close> asked for 100 steps.
\<close>

definition table_sized :: "reaction \<Rightarrow> bool" where
  "table_sized s \<longleftrightarrow>
     (case gradient s of
        None \<Rightarrow> \<not> init_colors s
      | Some g \<Rightarrow> length g = 100 \<and> gradient_count s = 100)
     \<and> list_all (\<lambda>call. snd (snd call) = 100) (scheme_calls s)"

section \<open>The color library, as the specification describes it\<close>

text \<open>
  Modelled from the spec: \<^verbatim>\<open>ColorUtils.color_scheme\<close> of \<^verbatim>\<open>uchroma/color.py\<close> is missing from
  the sources. The specification describes its result, the gradient table, as an ordered,
  fixed-length sequence of color values interpolated between an active color and a
  background color over N steps: a call for \<open>n\<close> steps returns \<open>n\<close> entries.
\<close>

definition scheme_length :: "color_scheme \<Rightarrow> bool" where
  "scheme_length cs \<longleftrightarrow> (\<forall>c b n. length (cs c b n) = n)"

text \<open>
  Modelled from the spec: the background end of a table of \<^verbatim>\<open>ColorUtils.color_scheme\<close>
  (missing from the sources). In the specification index 0 is the just-pressed end of the
  table and index N - 1 its fully faded end, and with an undefined base the color library
  chooses a default complementary background. \<open>dflt\<close> is that choice, made from the pressed
  color, and \<open>html\<close> is the color an HTML color string denotes; both belong to the color
  library.
\<close>

fun background_end :: "(color_arg \<Rightarrow> rgba) \<Rightarrow> (string \<Rightarrow> rgba) \<Rightarrow> color_arg \<Rightarrow> color_arg \<Rightarrow> rgba" where
  "background_end dflt html c ArgNone = dflt c"
| "background_end dflt html c (ArgStr h) = html h"
| "background_end dflt html c (ArgColor b) = b"

definition scheme_ends ::
  "color_scheme \<Rightarrow> (color_arg \<Rightarrow> rgba) \<Rightarrow> (string \<Rightarrow> rgba) \<Rightarrow> bool" where
  "scheme_ends cs dflt html \<longleftrightarrow>
     (\<forall>c b n. 0 < n \<longrightarrow> last (cs c b n) = background_end dflt html c b)"

section \<open>What the specification says of a frame\<close>

text \<open>
  A state with a built table of 100 entries, and an event as the host supplies it: its
  \<open>percent_complete\<close> is a float between 0 and 1.
\<close>

definition table_built :: "reaction \<Rightarrow> rgba list \<Rightarrow> bool" where
  "table_built s g \<longleftrightarrow> gradient s = Some g \<and> length g = 100 \<and> gradient_count s = 100"

definition valid_event :: "key_event \<Rightarrow> bool" where
  "valid_event event =
     (case percent_complete event of
        Finite p \<Rightarrow> is_double p \<and> 0 \<le> p \<and> p \<le> 1
      | _ \<Rightarrow> False)"

definition event_fraction :: "key_event \<Rightarrow> rat" where
  "event_fraction event = (case percent_complete event of Finite p \<Rightarrow> p | _ \<Rightarrow> 0)"

text \<open>
  ``Index into the table as \<open>idx = floor(table_length - percent_complete * table_length)\<close>'',
  the product and the difference being floats; and ``if \<open>percent_complete <= 0.15\<close>, bypass
  the table and use \<open>background_color\<close> directly''.
\<close>

definition spec_index :: "nat \<Rightarrow> rat \<Rightarrow> int" where
  "spec_index n p = \<lfloor>round_double (of_nat n - round_double (p * of_nat n))\<rfloor>"

definition spec_fade_color :: "rgba option \<Rightarrow> rgba list \<Rightarrow> rat \<Rightarrow> rgba option" where
  "spec_fade_color bg g p =
     (if p \<le> 15 / 100 then bg else Some (g ! nat (spec_index (length g) p)))"

text \<open>
  ``Write the resolved color into the event's data bag under a well-known key''; ``for each
  coordinate, write the resolved color into the layer at that (row, column)''; an event
  with zero coordinates is ``a reportable error condition (log and skip)''.
\<close>

definition resolved_event :: "rgba option \<Rightarrow> rgba list \<Rightarrow> key_event \<Rightarrow> key_event" where
  "resolved_event bg g event =
     event\<lparr>data := (data event)(REACT_COLOR_KEY \<mapsto> spec_fade_color bg g (event_fraction event))\<rparr>"

definition event_writes :: "key_event \<Rightarrow> layer" where
  "event_writes event =
     (case coords event of
        None \<Rightarrow> []
      | Some cds \<Rightarrow>
          (case data event REACT_COLOR_KEY of
             None \<Rightarrow> []
           | Some rc \<Rightarrow> map (\<lambda>c. (coord_y c, coord_x c, rc)) cds))"

definition event_errors :: "key_event \<Rightarrow> log_record list" where
  "event_errors event =
     (if coords event = None \<or> coords event = Some []
      then [LogError ''No coordinates available: %s'' event] else [])"

section \<open>Sample data\<close>

text \<open>
  A small color library that meets both descriptions of \<^verbatim>\<open>color_scheme\<close> (a linear ramp
  from the pressed color to the background end), the object it constructs by default, and
  three events, for the instances at which the theorems below are exercised.
\<close>

definition sample_html :: "string \<Rightarrow> rgba" where
  "sample_html h = (if h = ''#000000'' then (0, 0, 0, 1) else (1, 1, 1, 1))"

definition sample_default :: "color_arg \<Rightarrow> rgba" where
  "sample_default c = (1 / 2, 1 / 2, 1 / 2, 1)"

fun mix :: "rgba \<Rightarrow> rgba \<Rightarrow> rat \<Rightarrow> rgba" where
  "mix (r1, g1, b1, a1) (r2, g2, b2, a2) t =
     (r1 + (r2 - r1) * t, g1 + (g2 - g1) * t, b1 + (b2 - b1) * t, a1 + (a2 - a1) * t)"

definition sample_scheme :: color_scheme where
  "sample_scheme c b n =
     map (\<lambda>i. if Suc i = n then background_end sample_default sample_html c b
               else mix (background_end sample_default sample_html ArgNone c)
                        (background_end sample_default sample_html c b)
                        (of_nat i / of_nat n)) [0..<n]"

definition sample_table :: "rgba list" where
  "sample_table = sample_scheme (ArgStr ''#FFFFFF'') (ArgStr ''#000000'') 100"

definition sample_state :: reaction where
  "sample_state =
     \<lparr>fps = 30, speed = 6, background_color = Some (0, 0, 0, 1), color = Some (1, 1, 1, 1),
      init_speed = False, init_colors = False, key_expire_time = Some (Finite 1),
      gradient = Some sample_table, gradient_count = 100, logger = [],
      scheme_calls = [(ArgStr ''#FFFFFF'', ArgStr ''#000000'', 100)]\<rparr>"

definition sample_event :: "rat \<Rightarrow> coord list option \<Rightarrow> key_event" where
  "sample_event p cds = \<lparr>coords = cds, percent_complete = Finite p, data = Map.empty\<rparr>"

section \<open>Rounding to a double is monotone\<close>

lemma round_half_even_bounds:
  "\<lfloor>x\<rfloor> \<le> round_half_even x" "round_half_even x \<le> \<lfloor>x\<rfloor> + 1"
  by (simp_all add: round_half_even_def Let_def)

lemma round_half_even_of_int [simp]: "round_half_even (of_int n) = n"
  by (simp add: round_half_even_def)

lemma round_half_even_mono:
  assumes "x \<le> y"
  shows "round_half_even x \<le> round_half_even y"
proof (cases "\<lfloor>x\<rfloor> = \<lfloor>y\<rfloor>")
  case True
  with assms show ?thesis
    by (auto simp: round_half_even_def Let_def)
next
  case False
  with assms have "\<lfloor>x\<rfloor> + 1 \<le> \<lfloor>y\<rfloor>"
    using floor_mono [of x y] by linarith
  with round_half_even_bounds(2) [of x] round_half_even_bounds(1) [of y]
  show ?thesis by linarith
qed

lemma bitlen_rat_bounds:
  assumes "0 < a"
  shows "2 powi (bitlen a - 1) \<le> (of_int a :: rat)" "(of_int a :: rat) < 2 powi bitlen a"
proof -
  from assms have pos: "1 \<le> bitlen a"
    by (auto simp: bitlen_alt_def)
  from bitlen_bounds [OF assms]
  have lo: "2 ^ nat (bitlen a - 1) \<le> a" and hi: "a < 2 ^ nat (bitlen a)"
    by simp_all
  from lo have "(of_int (2 ^ nat (bitlen a - 1)) :: rat) \<le> of_int a"
    by (simp only: of_int_le_iff)
  with pos show "2 powi (bitlen a - 1) \<le> (of_int a :: rat)"
    by (simp add: power_int_def)
  from hi have "(of_int a :: rat) < of_int (2 ^ nat (bitlen a))"
    by (simp only: of_int_less_iff)
  with pos show "(of_int a :: rat) < 2 powi bitlen a"
    by (simp add: power_int_def)
qed

lemma ilog2_bounds:
  assumes "0 < x"
  shows "2 powi ilog2 x \<le> x" "x < 2 powi (ilog2 x + 1)"
proof -
  obtain a b where q: "quotient_of x = (a, b)"
    by (cases "quotient_of x")
  then have b: "0 < b" and x: "x = of_int a / of_int b"
    using quotient_of_denom_pos [OF q] quotient_of_div [OF q] by simp_all
  with assms have a: "0 < a"
    by (simp add: zero_less_divide_iff)
  define k where "k = bitlen a - bitlen b"
  have bpos: "(0::rat) < of_int b" using b by simp
  have "x < 2 powi bitlen a / 2 powi (bitlen b - 1)"
    unfolding x using bitlen_rat_bounds [OF a] bitlen_rat_bounds [OF b] bpos a
    by (intro frac_less) (auto intro: less_imp_le)
  also have "\<dots> = 2 powi (bitlen a - (bitlen b - 1))"
    by (rule power_int_diff [symmetric]) simp
  also have "bitlen a - (bitlen b - 1) = k + 1"
    by (simp add: k_def)
  finally have up: "x < 2 powi (k + 1)" .
  have "2 powi (bitlen a - 1) / 2 powi bitlen b < x"
    unfolding x using bitlen_rat_bounds [OF a] bitlen_rat_bounds [OF b] bpos
    by (intro frac_less2) (auto intro: less_imp_le)
  moreover have "2 powi (bitlen a - 1) / 2 powi bitlen b = (2::rat) powi (bitlen a - 1 - bitlen b)"
    by (rule power_int_diff [symmetric]) simp
  moreover have "bitlen a - 1 - bitlen b = k - 1"
    by (simp add: k_def)
  ultimately have lo: "2 powi (k - 1) < x" by simp
  have il: "ilog2 x = (if 2 powi k \<le> x then k else k - 1)"
    by (simp add: ilog2_def q k_def Let_def)
  show "2 powi ilog2 x \<le> x"
    using lo by (simp add: il less_imp_le)
  show "x < 2 powi (ilog2 x + 1)"
    using up by (simp add: il not_le)
qed

lemma ilog2_mono:
  assumes "0 < x" "x \<le> y"
  shows "ilog2 x \<le> ilog2 y"
proof (rule ccontr)
  assume "\<not> ilog2 x \<le> ilog2 y"
  then have "ilog2 y + 1 \<le> ilog2 x" by simp
  then have "(2::rat) powi (ilog2 y + 1) \<le> 2 powi ilog2 x"
    by (intro power_int_increasing) simp_all
  with ilog2_bounds(1) [OF assms(1)] ilog2_bounds(2) [of y] assms
  show False by simp
qed


lemma round_double_pos_eq:
  "x \<noteq> 0 \<Longrightarrow> round_double x = of_int (round_half_even (x / 2 powi ulp_exponent x)) * 2 powi ulp_exponent x"
  by (simp add: round_double_def)

lemma pow2_pos [simp]: "(0::rat) < 2 powi k"
  by (simp add: zero_less_power_int)

lemma round_double_nonneg:
  assumes "0 \<le> x"
  shows "0 \<le> round_double x"
proof (cases "x = 0")
  case True
  then show ?thesis by (simp add: round_double_def)
next
  case False
  from assms have "0 \<le> x / 2 powi ulp_exponent x" by simp
  then have "0 \<le> \<lfloor>x / 2 powi ulp_exponent x\<rfloor>" by simp
  with round_half_even_bounds(1) [of "x / 2 powi ulp_exponent x"]
  have "0 \<le> round_half_even (x / 2 powi ulp_exponent x)" by linarith
  with False show ?thesis
    by (simp add: round_double_pos_eq)
qed

lemma round_double_upper:
  assumes "0 < x"
  shows "round_double x \<le> 2 powi (ulp_exponent x + 53)"
proof -
  have "ilog2 x + 1 \<le> ulp_exponent x + 53"
    using assms by (simp add: ulp_exponent_def)
  then have "(2::rat) powi (ilog2 x + 1) \<le> 2 powi (ulp_exponent x + 53)"
    by (intro power_int_increasing) simp_all
  with ilog2_bounds(2) [OF assms] have "x \<le> 2 powi (ulp_exponent x + 53)" by simp
  also have "\<dots> = 2 powi 53 * 2 powi ulp_exponent x"
    by (simp add: power_int_add)
  finally have "x / 2 powi ulp_exponent x \<le> of_int (2 ^ 53)"
    by (simp add: pos_divide_le_eq)
  from round_half_even_mono [OF this]
  have "round_half_even (x / 2 powi ulp_exponent x) \<le> 2 ^ 53"
    by (simp only: round_half_even_of_int)
  then have "(of_int (round_half_even (x / 2 powi ulp_exponent x)) :: rat) \<le> of_int (2 ^ 53)"
    by (simp only: of_int_le_iff)
  then have "of_int (round_half_even (x / 2 powi ulp_exponent x)) * 2 powi ulp_exponent x \<le> (2::rat) powi 53 * 2 powi ulp_exponent x"
    by (intro mult_right_mono) simp_all
  with assms show ?thesis
    by (simp add: round_double_pos_eq power_int_add)
qed

lemma round_double_lower:
  assumes "0 < y" "- 1074 < ulp_exponent y"
  shows "2 powi (ulp_exponent y + 52) \<le> round_double y"
proof -
  from assms have e: "ulp_exponent y + 52 = ilog2 y"
    by (simp add: ulp_exponent_def max_def split: if_splits)
  have "(2::rat) powi 52 * 2 powi ulp_exponent y = 2 powi (ulp_exponent y + 52)"
    by (simp add: power_int_add)
  also have "\<dots> \<le> y"
    using ilog2_bounds(1) [OF assms(1)] by (simp only: e)
  finally have "of_int (2 ^ 52) \<le> y / 2 powi ulp_exponent y"
    by (simp add: pos_le_divide_eq)
  from round_half_even_mono [OF this]
  have "2 ^ 52 \<le> round_half_even (y / 2 powi ulp_exponent y)"
    by (simp only: round_half_even_of_int)
  then have "(of_int (2 ^ 52) :: rat) \<le> of_int (round_half_even (y / 2 powi ulp_exponent y))"
    by (simp only: of_int_le_iff)
  then have "(2::rat) powi 52 * 2 powi ulp_exponent y \<le> of_int (round_half_even (y / 2 powi ulp_exponent y)) * 2 powi ulp_exponent y"
    by (intro mult_right_mono) simp_all
  with assms show ?thesis
    by (simp add: round_double_pos_eq power_int_add)
qed

lemma round_double_mono:
  assumes "0 \<le> x" "x \<le> y"
  shows "round_double x \<le> round_double y"
proof (cases "x = 0")
  case True
  with assms round_double_nonneg [of y] show ?thesis
    by (simp add: round_double_def)
next
  case False
  with assms have x: "0 < x" and y: "0 < y" by simp_all
  have le: "ulp_exponent x \<le> ulp_exponent y"
    using ilog2_mono [OF x assms(2)] x y by (simp add: ulp_exponent_def)
  show ?thesis
  proof (cases "ulp_exponent x = ulp_exponent y")
    case True
    from assms(2) have "x / 2 powi ulp_exponent y \<le> y / 2 powi ulp_exponent y"
      by (simp add: divide_right_mono)
    from round_half_even_mono [OF this]
    have "(of_int (round_half_even (x / 2 powi ulp_exponent y)) :: rat) \<le> of_int (round_half_even (y / 2 powi ulp_exponent y))"
      by (simp only: of_int_le_iff)
    then have "of_int (round_half_even (x / 2 powi ulp_exponent y)) * 2 powi ulp_exponent y
        \<le> of_int (round_half_even (y / 2 powi ulp_exponent y)) * (2::rat) powi ulp_exponent y"
      by (intro mult_right_mono) simp_all
    with x y True show ?thesis
      by (simp add: round_double_pos_eq)
  next
    case False
    with le have lt: "ulp_exponent x + 1 \<le> ulp_exponent y" by simp
    have "- 1074 \<le> ulp_exponent x" by (simp add: ulp_exponent_def)
    with lt have sub: "- 1074 < ulp_exponent y" by simp
    from lt have "(2::rat) powi (ulp_exponent x + 53) \<le> 2 powi (ulp_exponent y + 52)"
      by (intro power_int_increasing) simp_all
    with round_double_upper [OF x] round_double_lower [OF y sub]
    show ?thesis by simp
  qed
qed

section \<open>The index and the color of one event\<close>

lemma round_double_100: "round_double 100 = 100" by code_simp
lemma round_double_85: "round_double 85 = 85" by code_simp
lemma round_double_15_100: "round_double (3 / 20) = 5404319552844595 / 36028797018963968" by code_simp
lemma round_double_threshold: "round_double (5404319552844595 / 36028797018963968 * 100) = 15" by code_simp

lemma to_float_small:
  assumes "0 \<le> r" "r \<le> 100"
  shows "to_float r = Finite (round_double r)" "0 \<le> round_double r" "round_double r \<le> 100"
proof -
  show lo: "0 \<le> round_double r"
    using assms(1) by (rule round_double_nonneg)
  show hi: "round_double r \<le> 100"
    using round_double_mono [OF assms] by (simp add: round_double_100)
  have "(100::rat) \<le> DBL_MAX"
    by (simp add: DBL_MAX_def)
  with lo hi show "to_float r = Finite (round_double r)"
    by (simp add: to_float_def Let_def)
qed

lemma float_of_int_100: "float_of_int 100 = Inr (Finite 100)"
  by (simp add: float_of_int_def to_float_small(1) round_double_100)

lemma float_literal_15_100:
  "float_literal (3 / 20) = Finite (5404319552844595 / 36028797018963968)"
  using to_float_small(1) [of "3 / 20"] by (simp add: float_literal_def round_double_15_100)

lemma gradient_idx_eq:
  assumes "gradient_count s = 100" "percent_complete e = Finite p" "0 \<le> p" "p \<le> 1"
  shows "gradient_idx s e = Inr (spec_index 100 p)"
    and "0 \<le> spec_index 100 p" and "spec_index 100 p \<le> 100"
proof -
  from assms have m: "0 \<le> p * 100" "p * 100 \<le> 100" by simp_all
  note prod = to_float_small [OF m]
  from prod have d: "0 \<le> 100 - round_double (p * 100)" "100 - round_double (p * 100) \<le> 100"
    by simp_all
  note diff = to_float_small [OF d]
  show "gradient_idx s e = Inr (spec_index 100 p)"
    using prod(1) diff(1) diff(2)
    by (simp add: gradient_idx_def assms(1,2) float_of_int_100 spec_index_def)
  show "0 \<le> spec_index 100 p"
    using diff(2) by (simp add: spec_index_def)
  show "spec_index 100 p \<le> 100"
    using diff(3) by (simp add: spec_index_def floor_le_iff)
qed

lemma index_above_threshold:
  assumes "5404319552844595 / 36028797018963968 < p" "p \<le> 1"
  shows "spec_index 100 p \<le> 85"
proof -
  have "0 \<le> (5404319552844595 / 36028797018963968 :: rat) * 100" by simp
  moreover have "5404319552844595 / 36028797018963968 * 100 \<le> p * 100"
    using assms(1) by simp
  ultimately have "round_double (5404319552844595 / 36028797018963968 * 100) \<le> round_double (p * 100)"
    by (rule round_double_mono)
  then have lo: "15 \<le> round_double (p * 100)"
    by (simp only: round_double_threshold)
  from assms have "0 \<le> p * 100" "p * 100 \<le> 100" by simp_all
  from to_float_small(3) [OF this] have "0 \<le> 100 - round_double (p * 100)" by simp
  moreover from lo have "100 - round_double (p * 100) \<le> 85" by simp
  ultimately have "round_double (100 - round_double (p * 100)) \<le> round_double 85"
    by (rule round_double_mono)
  then show ?thesis
    by (simp add: spec_index_def round_double_85 floor_le_iff)
qed

lemma threshold_iff:
  assumes "is_double p" "0 \<le> p"
  shows "p \<le> 5404319552844595 / 36028797018963968 \<longleftrightarrow> p \<le> 15 / 100"
proof
  assume "p \<le> 5404319552844595 / 36028797018963968"
  then show "p \<le> 15 / 100" by simp
next
  assume "p \<le> 15 / 100"
  with assms(2) have "round_double p \<le> round_double (15 / 100)"
    by (rule round_double_mono)
  with assms(1) show "p \<le> 5404319552844595 / 36028797018963968"
    by (simp add: is_double_def round_double_15_100)
qed

lemma resolve_color_below:
  assumes "gradient_count s = 100" "percent_complete e = Finite p" "0 \<le> p"
    and "p \<le> 5404319552844595 / 36028797018963968"
  shows "resolve_color s g e = Inr (e\<lparr>data := (data e)(REACT_COLOR_KEY \<mapsto> background_color s)\<rparr>)"
proof -
  from assms(4) have "p \<le> 1" by simp
  from gradient_idx_eq(1) [OF assms(1,2,3) this] assms(4) show ?thesis
    by (simp add: resolve_color_def assms(2) float_literal_15_100)
qed

lemma resolve_color_above:
  assumes "length g = 100" "gradient_count s = 100" "percent_complete e = Finite p"
    and "5404319552844595 / 36028797018963968 < p" "p \<le> 1"
  shows "resolve_color s g e
           = Inr (e\<lparr>data := (data e)(REACT_COLOR_KEY \<mapsto> Some (g ! nat (spec_index 100 p)))\<rparr>)"
    and "list_getitem g (spec_index 100 p) = Inr (g ! nat (spec_index 100 p))"
proof -
  from assms(4) have p0: "0 \<le> p" by simp
  note idx = gradient_idx_eq [OF assms(2,3) p0 assms(5)]
  from index_above_threshold [OF assms(4,5)] idx(2)
  show get: "list_getitem g (spec_index 100 p) = Inr (g ! nat (spec_index 100 p))"
    by (simp add: list_getitem_def assms(1))
  from assms(4) have "\<not> float_le (Finite p) (float_literal (15 / 100))"
    by (simp add: float_literal_15_100)
  with idx(1) get show "resolve_color s g e
           = Inr (e\<lparr>data := (data e)(REACT_COLOR_KEY \<mapsto> Some (g ! nat (spec_index 100 p)))\<rparr>)"
    by (simp add: resolve_color_def assms(3))
qed

lemma resolve_color_eq:
  assumes "length g = 100" "gradient_count s = 100" "valid_event e"
  shows "resolve_color s g e = Inr (resolved_event (background_color s) g e)"
proof -
  from assms(3) obtain p where pc: "percent_complete e = Finite p" and dbl: "is_double p"
    and p0: "0 \<le> p" and p1: "p \<le> 1"
    by (auto simp: valid_event_def split: pyfloat.splits)
  from pc have fr: "event_fraction e = p"
    by (simp add: event_fraction_def)
  show ?thesis
  proof (cases "p \<le> 15 / 100")
    case True
    with threshold_iff [OF dbl p0] have "p \<le> 5404319552844595 / 36028797018963968"
      by simp
    from resolve_color_below [OF assms(2) pc p0 this] True show ?thesis
      by (simp add: resolved_event_def fr spec_fade_color_def)
  next
    case False
    with threshold_iff [OF dbl p0] have "5404319552844595 / 36028797018963968 < p"
      by simp
    from resolve_color_above(1) [OF assms(1,2) pc this p1] False show ?thesis
      by (simp add: resolved_event_def fr spec_fade_color_def assms(1))
  qed
qed

lemma foldl_put:
  "foldl (\<lambda>l' c. put l' (coord_y c) (coord_x c) rc) l cds
     = l @ map (\<lambda>c. (coord_y c, coord_x c, rc)) cds"
  by (induction cds arbitrary: l) (simp_all add: put_def)

lemma react_keys_effect:
  assumes "data e REACT_COLOR_KEY = Some rc"
  shows "react_keys l e s = Inr (l @ event_writes e, s\<lparr>logger := logger s @ event_errors e\<rparr>)"
proof (cases "coords e")
  case None
  then show ?thesis
    by (simp add: react_keys_def no_coords_def event_writes_def event_errors_def)
next
  case (Some cds)
  with assms show ?thesis
    by (cases cds)
      (simp_all add: react_keys_def no_coords_def event_writes_def event_errors_def foldl_put)
qed

lemma key_never_in_batch: "\<not> py_in (PyStr k) (map PyEvent events)"
  by (auto simp: py_in_def)

lemma process_loop_effect:
  assumes "length g = 100" "gradient_count s = 100" "\<forall>e\<in>set rest. valid_event e"
  shows "process_loop g events l rest s
           = Inr (l @ concat (map event_writes (map (resolved_event (background_color s) g) rest)),
                  map (resolved_event (background_color s) g) rest,
                  s\<lparr>logger := logger s
                      @ concat (map event_errors (map (resolved_event (background_color s) g) rest))\<rparr>)"
  using assms
proof (induction rest arbitrary: l s)
  case Nil
  show ?case by simp
next
  case (Cons e rest)
  define e' where "e' = resolved_event (background_color s) g e"
  define s1 where "s1 = s\<lparr>logger := logger s @ event_errors e'\<rparr>"
  from Cons.prems have res: "resolve_color s g e = Inr e'"
    by (simp add: e'_def resolve_color_eq)
  have "data e' REACT_COLOR_KEY = Some (spec_fade_color (background_color s) g (event_fraction e))"
    by (simp add: e'_def resolved_event_def)
  then have rk: "react_keys l e' s = Inr (l @ event_writes e', s1)"
    unfolding s1_def by (rule react_keys_effect)
  have "gradient_count s1 = 100" "\<forall>e\<in>set rest. valid_event e"
    using Cons.prems by (simp_all add: s1_def)
  from Cons.IH [OF Cons.prems(1) this, of "l @ event_writes e'"] res rk
  show ?case
    by (simp add: key_never_in_batch s1_def e'_def)
qed

lemma process_events_effect:
  assumes "table_built s g" "\<forall>e\<in>set events. valid_event e"
  shows "process_events l events s
           = Inr (l @ concat (map event_writes (map (resolved_event (background_color s) g) events)),
                  map (resolved_event (background_color s) g) events,
                  s\<lparr>logger := logger s
                      @ concat (map event_errors (map (resolved_event (background_color s) g) events))\<rparr>)"
  using assms process_loop_effect [of g s events events l]
  by (simp add: process_events_def table_built_def)

section \<open>Speed and expiry time\<close>

lemma small_exact:
  "list_all (\<lambda>k. round_double k = k \<and> round_double (k * (1 / 4)) = k * (1 / 4))
     [1, 2, 3, 4, 5, 6, 7, 8, 9]"
  by code_simp

lemma round_double_quarter: "round_double (1 / 4) = 1 / 4"
  by code_simp

lemma EXPIRE_TIME_FACTOR_eq: "EXPIRE_TIME_FACTOR = Finite (1 / 4)"
  using to_float_small(1) [of "1 / 4"]
  by (simp add: EXPIRE_TIME_FACTOR_def float_literal_def round_double_quarter)

lemma expire_float:
  assumes "1 \<le> k" "k \<le> 9"
  shows "float_of_int k = Inr (Finite (of_int k))"
    and "float_mul (Finite (of_int k)) EXPIRE_TIME_FACTOR = Finite (of_int k * (25 / 100))"
proof -
  from assms have "k = 1 \<or> k = 2 \<or> k = 3 \<or> k = 4 \<or> k = 5 \<or> k = 6 \<or> k = 7 \<or> k = 8 \<or> k = 9"
    by arith
  then have "(of_int k :: rat) \<in> set [1, 2, 3, 4, 5, 6, 7, 8, 9]"
    by auto
  with small_exact [unfolded list_all_iff]
  have int: "round_double (of_int k) = of_int k"
    and quarter: "round_double (of_int k * (1 / 4)) = of_int k * (1 / 4)"
    by blast+
  from assms have r: "(0::rat) \<le> of_int k" "(of_int k :: rat) \<le> 100"
    by simp_all
  from to_float_small(1) [OF r] int show "float_of_int k = Inr (Finite (of_int k))"
    by (simp add: float_of_int_def)
  from r have "(0::rat) \<le> of_int k * (1 / 4)" "(of_int k :: rat) * (1 / 4) \<le> 100"
    by simp_all
  from to_float_small(1) [OF this] quarter
  show "float_mul (Finite (of_int k)) EXPIRE_TIME_FACTOR = Finite (of_int k * (25 / 100))"
    by (simp add: EXPIRE_TIME_FACTOR_eq)
qed

lemma set_speed_eq:
  assumes "1 \<le> v" "v \<le> 9"
  shows "set_speed v s = Inr (s\<lparr>key_expire_time := Some (Finite ((9 + 1 - of_int v) * (25 / 100)))\<rparr>)"
proof -
  from assms have "1 \<le> 10 - v" "10 - v \<le> 9" by simp_all
  from expire_float [OF this] show ?thesis
    by (simp add: set_speed_def MAX_SPEED_def)
qed

text \<open>
  C4: for every speed from 1 to 9, a speed change leaves \<open>key_expire_time\<close> at
  \<open>(MAX_SPEED + 1 - speed) * 0.25 = (9 + 1 - speed) * 0.25\<close>, the float product being exact
  there; a higher speed gives a strictly smaller time; and the constructor, when no speed
  was set before, leaves the value of the default speed 6, which is 1.
\<close>

theorem C4_key_expire_time:
  assumes "1 \<le> v" "v \<le> 9"
  shows "set_speed v s = Inr (s\<lparr>key_expire_time := Some (Finite ((9 + 1 - of_int v) * (25 / 100)))\<rparr>)
    \<and> change_speed \<lparr>name = ''speed'', old = u, new = v\<rparr> s
        = Inr (s\<lparr>init_speed := True,
                 key_expire_time := Some (Finite ((9 + 1 - of_int v) * (25 / 100)))\<rparr>)
    \<and> (\<forall>w. v < w \<and> w \<le> 9 \<longrightarrow>
          (\<exists>a b. set_speed v s = Inr (s\<lparr>key_expire_time := Some (Finite a)\<rparr>)
               \<and> set_speed w s = Inr (s\<lparr>key_expire_time := Some (Finite b)\<rparr>) \<and> b < a))
    \<and> (\<not> init_speed s \<longrightarrow>
          map_sum id key_expire_time (init_reaction cs s) = Inr (Some (Finite ((9 + 1 - 6) * (25 / 100)))))"
proof (intro conjI allI impI)
  show "set_speed v s = Inr (s\<lparr>key_expire_time := Some (Finite ((9 + 1 - of_int v) * (25 / 100)))\<rparr>)"
    using assms by (rule set_speed_eq)
  show "change_speed \<lparr>name = ''speed'', old = u, new = v\<rparr> s
        = Inr (s\<lparr>init_speed := True,
                 key_expire_time := Some (Finite ((9 + 1 - of_int v) * (25 / 100)))\<rparr>)"
    using set_speed_eq [OF assms, of "s\<lparr>init_speed := True\<rparr>"]
    by (simp add: change_speed_def)
next
  fix w assume w: "v < w \<and> w \<le> 9"
  with assms have "1 \<le> w" "w \<le> 9" by simp_all
  then have sw: "set_speed w s = Inr (s\<lparr>key_expire_time := Some (Finite ((9 + 1 - of_int w) * (25 / 100)))\<rparr>)"
    by (rule set_speed_eq)
  have sv: "set_speed v s = Inr (s\<lparr>key_expire_time := Some (Finite ((9 + 1 - of_int v) * (25 / 100)))\<rparr>)"
    using assms by (rule set_speed_eq)
  from w have "(9 + 1 - of_int w) * (25 / 100) < (9 + 1 - of_int v) * (25 / 100 :: rat)"
    by simp
  with sv sw
  show "\<exists>a b. set_speed v s = Inr (s\<lparr>key_expire_time := Some (Finite a)\<rparr>)
               \<and> set_speed w s = Inr (s\<lparr>key_expire_time := Some (Finite b)\<rparr>) \<and> b < a"
    by blast
next
  assume "\<not> init_speed s"
  with set_speed_eq [of 6 "s\<lparr>fps := 30\<rparr>"]
  show "map_sum id key_expire_time (init_reaction cs s) = Inr (Some (Finite ((9 + 1 - 6) * (25 / 100))))"
    by (simp add: init_reaction_def DEFAULT_SPEED_def Let_def set_colors_def)
qed

theorem C4_key_expire_time_witness:
  "(1::int) \<le> 6 \<and> (6::int) \<le> 9
    \<and> set_speed 6 sample_state = Inr (sample_state\<lparr>key_expire_time := Some (Finite 1)\<rparr>)
    \<and> change_speed \<lparr>name = ''speed'', old = 6, new = 6\<rparr> sample_state
        = Inr (sample_state\<lparr>init_speed := True, key_expire_time := Some (Finite 1)\<rparr>)
    \<and> map_sum id key_expire_time (init_reaction sample_scheme sample_state) = Inr (Some (Finite 1))"
  using C4_key_expire_time [of 6 sample_state 6 sample_scheme]
  by (simp add: sample_state_def)

lemma expire_time_examples:
  "set_speed 9 s = Inr (s\<lparr>key_expire_time := Some (Finite (1 / 4))\<rparr>)"
  "set_speed 6 s = Inr (s\<lparr>key_expire_time := Some (Finite 1)\<rparr>)"
  "set_speed 1 s = Inr (s\<lparr>key_expire_time := Some (Finite (9 / 4))\<rparr>)"
  using set_speed_eq [of 9 s] set_speed_eq [of 6 s] set_speed_eq [of 1 s] by simp_all

section \<open>Frames\<close>

lemma sample_doubles:
  "list_all is_double [0, 1, 5404319552844595 / 36028797018963968, 5764607523034235 / 36028797018963968]"
  by code_simp

lemma sample_indices:
  "spec_index 100 1 = 0" "spec_index 100 0 = 100"
  "spec_index 100 (5764607523034235 / 36028797018963968) = 84"
  by code_simp+

lemma length_sample_scheme: "length (sample_scheme c b n) = n"
  by (simp add: sample_scheme_def)

lemma sample_table_built: "table_built sample_state sample_table"
  by (simp add: table_built_def sample_state_def sample_table_def length_sample_scheme)

lemma sample_table_entries:
  "sample_table ! 0 = (1, 1, 1, 1)" "sample_table ! 84 = (4 / 25, 4 / 25, 4 / 25, 1)"
  by (simp_all add: sample_table_def sample_scheme_def sample_html_def)

text \<open>
  C1: in a frame with a built table of 100 entries, the color stored for every event is
  \<open>background_color\<close> itself when the event's \<open>percent_complete\<close> is at most 0.15, and
  otherwise the table entry at index \<open>floor(table_length - percent_complete * table_length)\<close>,
  product and difference computed in floats as the program does; \<open>percent_complete = 1\<close>
  gives index 0.
\<close>

theorem C1_fade_color:
  assumes "table_built s g" "\<forall>e\<in>set events. valid_event e"
  shows "map_sum id (\<lambda>(l', events', s'). map (\<lambda>e. data e REACT_COLOR_KEY) events')
             (process_events l events s)
           = Inr (map (\<lambda>e. Some (if event_fraction e \<le> 15 / 100 then background_color s
                                   else Some (g ! nat (spec_index 100 (event_fraction e))))) events)
         \<and> spec_index 100 1 = 0"
proof -
  from assms(1) have len: "length g = 100"
    by (simp add: table_built_def)
  show ?thesis
    by (simp add: process_events_effect [OF assms] resolved_event_def spec_fade_color_def len
        sample_indices(1) comp_def)
qed

theorem C1_fade_color_witness:
  "table_built sample_state sample_table
     \<and> valid_event (sample_event 1 (Some [\<lparr>coord_y = 0, coord_x = 0\<rparr>]))
     \<and> valid_event (sample_event (5764607523034235 / 36028797018963968) None)
     \<and> valid_event (sample_event (5404319552844595 / 36028797018963968) (Some []))
     \<and> map_sum id (\<lambda>(l', events', s'). map (\<lambda>e. data e REACT_COLOR_KEY) events')
          (process_events []
             [sample_event 1 (Some [\<lparr>coord_y = 0, coord_x = 0\<rparr>]),
              sample_event (5764607523034235 / 36028797018963968) None,
              sample_event (5404319552844595 / 36028797018963968) (Some [])]
             sample_state)
         = Inr [Some (Some (1, 1, 1, 1)), Some (Some (4 / 25, 4 / 25, 4 / 25, 1)), Some (Some (0, 0, 0, 1))]"
proof -
  have v: "valid_event (sample_event 1 (Some [\<lparr>coord_y = 0, coord_x = 0\<rparr>]))"
    "valid_event (sample_event (5764607523034235 / 36028797018963968) None)"
    "valid_event (sample_event (5404319552844595 / 36028797018963968) (Some []))"
    using sample_doubles by (simp_all add: valid_event_def sample_event_def)
  then have all: "\<forall>e\<in>set [sample_event 1 (Some [\<lparr>coord_y = 0, coord_x = 0\<rparr>]),
              sample_event (5764607523034235 / 36028797018963968) None,
              sample_event (5404319552844595 / 36028797018963968) (Some [])]. valid_event e"
    by simp
  from C1_fade_color [OF sample_table_built all, of "[]"] v sample_table_built
  show ?thesis
    by (simp add: event_fraction_def sample_event_def sample_indices sample_table_entries
        sample_state_def)
qed


text \<open>
  The index is the float computation's, which can differ from exact arithmetic on the same
  double: at the double nearest to 0.16 the program computes 84, where the exact value of
  \<open>100 - p * 100\<close> lies just below 84.
\<close>

lemma exact_index_differs:
  "spec_index 100 (5764607523034235 / 36028797018963968) = 84
     \<and> \<lfloor>100 - (5764607523034235 / 36028797018963968 :: rat) * 100\<rfloor> = 83"
  by (simp add: sample_indices floor_eq_iff)

text \<open>
  C5: with a table of 100 entries and \<open>0.15 < percent_complete \<le> 1\<close> the index the program
  computes is \<open>floor(100 - percent_complete * 100)\<close> in floats, it lies between 0 and 99,
  and the lookup succeeds. At \<open>percent_complete = 0\<close> the computed index is 100, which the
  table does not have; there the event gets the background color without a lookup.
\<close>

theorem C5_index_within_table:
  assumes "table_built s g" "percent_complete e = Finite p" "15 / 100 < p" "p \<le> 1"
  shows "gradient_idx s e = Inr (spec_index 100 p)
     \<and> 0 \<le> spec_index 100 p \<and> spec_index 100 p \<le> 99
     \<and> list_getitem g (spec_index 100 p) = Inr (g ! nat (spec_index 100 p))
     \<and> resolve_color s g e
          = Inr (e\<lparr>data := (data e)(REACT_COLOR_KEY \<mapsto> Some (g ! nat (spec_index 100 p)))\<rparr>)
     \<and> gradient_idx s (e\<lparr>percent_complete := Finite 0\<rparr>) = Inr 100
     \<and> list_getitem g 100 = Inl IndexError
     \<and> resolve_color s g (e\<lparr>percent_complete := Finite 0\<rparr>)
          = Inr (e\<lparr>percent_complete := Finite 0,
                   data := (data e)(REACT_COLOR_KEY \<mapsto> background_color s)\<rparr>)"
proof -
  from assms(1) have len: "length g = 100" and cnt: "gradient_count s = 100"
    by (simp_all add: table_built_def)
  from assms(3) have p0: "0 \<le> p" and above: "5404319552844595 / 36028797018963968 < p"
    by simp_all
  note idx = gradient_idx_eq [OF cnt assms(2) p0 assms(4)]
  note res = resolve_color_above [OF len cnt assms(2) above assms(4)]
  have up: "spec_index 100 p \<le> 99"
    using index_above_threshold [OF above assms(4)] by simp
  have zero: "gradient_idx s (e\<lparr>percent_complete := Finite 0\<rparr>) = Inr 100"
    using gradient_idx_eq(1) [of s "e\<lparr>percent_complete := Finite 0\<rparr>" 0] cnt
    by (simp add: sample_indices)
  have out: "list_getitem g 100 = Inl IndexError"
    by (simp add: list_getitem_def len)
  have bg: "resolve_color s g (e\<lparr>percent_complete := Finite 0\<rparr>)
          = Inr (e\<lparr>percent_complete := Finite 0,
                   data := (data e)(REACT_COLOR_KEY \<mapsto> background_color s)\<rparr>)"
    using resolve_color_below [of s "e\<lparr>percent_complete := Finite 0\<rparr>" 0 g] cnt
    by simp
  from idx(1,2) up res zero out bg show ?thesis
    by simp
qed

theorem C5_index_within_table_witness:
  "table_built sample_state sample_table
     \<and> percent_complete (sample_event (5764607523034235 / 36028797018963968) None)
          = Finite (5764607523034235 / 36028797018963968)
     \<and> (15 / 100 :: rat) < 5764607523034235 / 36028797018963968
     \<and> (5764607523034235 / 36028797018963968 :: rat) \<le> 1
     \<and> gradient_idx sample_state (sample_event (5764607523034235 / 36028797018963968) None) = Inr 84
     \<and> list_getitem sample_table 84 = Inr (4 / 25, 4 / 25, 4 / 25, 1)
     \<and> gradient_idx sample_state (sample_event 0 None) = Inr 100
     \<and> list_getitem sample_table 100 = Inl IndexError
     \<and> resolve_color sample_state sample_table (sample_event 0 None)
          = Inr ((sample_event 0 None)\<lparr>data := [REACT_COLOR_KEY \<mapsto> Some (0, 0, 0, 1)]\<rparr>)"
proof -
  have pc: "percent_complete (sample_event (5764607523034235 / 36028797018963968) None)
          = Finite (5764607523034235 / 36028797018963968)"
    by (simp add: sample_event_def)
  have lo: "(15 / 100 :: rat) < 5764607523034235 / 36028797018963968"
    and hi: "(5764607523034235 / 36028797018963968 :: rat) \<le> 1"
    by simp_all
  from C5_index_within_table [OF sample_table_built pc lo hi] sample_table_built pc
  show ?thesis
    by (simp add: sample_indices sample_table_entries sample_event_def sample_state_def)
qed


text \<open>
  C6: an event whose coordinates are missing or empty makes \<^verbatim>\<open>_react_keys\<close> return
  normally with the layer untouched and exactly one error record added to the log; in a
  frame, the events after it are processed as they would be from that state and that layer.
\<close>

theorem C6_missing_coordinates:
  assumes "coords e = None \<or> coords e = Some []"
  shows "react_keys l e s
           = Inr (l, s\<lparr>logger := logger s @ [LogError ''No coordinates available: %s'' e]\<rparr>)
     \<and> (table_built s g \<and> valid_event e \<longrightarrow>
          process_loop g events l (e # rest) s
            = (case process_loop g events l rest
                      (s\<lparr>logger := logger s
                          @ [LogError ''No coordinates available: %s''
                               (resolved_event (background_color s) g e)]\<rparr>) of
                 Inl err \<Rightarrow> Inl err
               | Inr (l', rest', s') \<Rightarrow>
                   Inr (l', resolved_event (background_color s) g e # rest', s')))"
proof (intro conjI impI)
  show "react_keys l e s
           = Inr (l, s\<lparr>logger := logger s @ [LogError ''No coordinates available: %s'' e]\<rparr>)"
    using assms by (auto simp: react_keys_def no_coords_def)
next
  assume "table_built s g \<and> valid_event e"
  then have res: "resolve_color s g e = Inr (resolved_event (background_color s) g e)"
    by (simp add: table_built_def resolve_color_eq)
  from assms have c: "coords (resolved_event (background_color s) g e) = None
      \<or> coords (resolved_event (background_color s) g e) = Some []"
    by (simp add: resolved_event_def)
  then have "react_keys l (resolved_event (background_color s) g e) s
      = Inr (l, s\<lparr>logger := logger s
                  @ [LogError ''No coordinates available: %s'' (resolved_event (background_color s) g e)]\<rparr>)"
    by (auto simp: react_keys_def no_coords_def)
  with res show "process_loop g events l (e # rest) s
            = (case process_loop g events l rest
                      (s\<lparr>logger := logger s
                          @ [LogError ''No coordinates available: %s''
                               (resolved_event (background_color s) g e)]\<rparr>) of
                 Inl err \<Rightarrow> Inl err
               | Inr (l', rest', s') \<Rightarrow>
                   Inr (l', resolved_event (background_color s) g e # rest', s'))"
    by (simp add: key_never_in_batch)
qed

lemma sample_event_valid: "valid_event (sample_event 1 cds)"
  using sample_doubles by (simp add: valid_event_def sample_event_def)

lemma sample_event_resolved:
  "resolved_event (Some (0, 0, 0, 1)) sample_table (sample_event 1 cds)
     = (sample_event 1 cds)\<lparr>data := [REACT_COLOR_KEY \<mapsto> Some (1, 1, 1, 1)]\<rparr>"
  using sample_table_built
  by (simp add: resolved_event_def spec_fade_color_def event_fraction_def sample_event_def
      table_built_def sample_indices sample_table_entries)

theorem C6_missing_coordinates_witness:
  "coords (sample_event 1 (Some [])) = Some []
     \<and> table_built sample_state sample_table \<and> valid_event (sample_event 1 (Some []))
     \<and> react_keys [] (sample_event 1 (Some [])) sample_state
          = Inr ([], sample_state\<lparr>logger :=
                     [LogError ''No coordinates available: %s'' (sample_event 1 (Some []))]\<rparr>)
     \<and> process_loop sample_table [] []
            [sample_event 1 (Some []), sample_event 1 (Some [\<lparr>coord_y = 2, coord_x = 3\<rparr>])] sample_state
          = Inr ([(2, 3, Some (1, 1, 1, 1))],
                 [(sample_event 1 (Some []))\<lparr>data := [REACT_COLOR_KEY \<mapsto> Some (1, 1, 1, 1)]\<rparr>,
                  (sample_event 1 (Some [\<lparr>coord_y = 2, coord_x = 3\<rparr>]))
                     \<lparr>data := [REACT_COLOR_KEY \<mapsto> Some (1, 1, 1, 1)]\<rparr>],
                 sample_state\<lparr>logger :=
                     [LogError ''No coordinates available: %s''
                        ((sample_event 1 (Some []))\<lparr>data := [REACT_COLOR_KEY \<mapsto> Some (1, 1, 1, 1)]\<rparr>)]\<rparr>)"
proof -
  have c: "coords (sample_event 1 (Some [])) = Some []"
    by (simp add: sample_event_def)
  then have "coords (sample_event 1 (Some [])) = None \<or> coords (sample_event 1 (Some [])) = Some []"
    by simp
  note inst = C6_missing_coordinates [OF this, of "[]" sample_state sample_table "[]"
      "[sample_event 1 (Some [\<lparr>coord_y = 2, coord_x = 3\<rparr>])]"]
  have bg: "background_color sample_state = Some (0, 0, 0, 1)" and lg: "logger sample_state = []"
    by (simp_all add: sample_state_def)
  have rest: "process_loop sample_table [] [] [sample_event 1 (Some [\<lparr>coord_y = 2, coord_x = 3\<rparr>])]
        (sample_state\<lparr>logger := [LogError ''No coordinates available: %s''
              ((sample_event 1 (Some []))\<lparr>data := [REACT_COLOR_KEY \<mapsto> Some (1, 1, 1, 1)]\<rparr>)]\<rparr>)
      = Inr ([(2, 3, Some (1, 1, 1, 1))],
             [(sample_event 1 (Some [\<lparr>coord_y = 2, coord_x = 3\<rparr>]))
                 \<lparr>data := [REACT_COLOR_KEY \<mapsto> Some (1, 1, 1, 1)]\<rparr>],
             sample_state\<lparr>logger := [LogError ''No coordinates available: %s''
              ((sample_event 1 (Some []))\<lparr>data := [REACT_COLOR_KEY \<mapsto> Some (1, 1, 1, 1)]\<rparr>)]\<rparr>)"
    using sample_table_built
    by (subst process_loop_effect)
      (simp_all add: table_built_def sample_event_valid bg sample_event_resolved
        event_writes_def event_errors_def, simp_all add: sample_event_def)
  from inst c sample_table_built sample_event_valid [of "Some []"] rest
  show ?thesis
    by (simp add: bg lg sample_event_resolved)
qed

text \<open>
  C7: \<^verbatim>\<open>draw\<close> on an empty batch returns false and leaves the layer as it was. On a batch
  with at least one event it never returns false. It returns true with nothing processed
  when no table is built yet; and when the table is built and the events are valid it
  returns true after processing: every bag holds the resolved color, the layer has received
  that color at every coordinate of every event, in batch order, and the log has one record
  for each event without coordinates.
\<close>

theorem C7_draw_result:
  "draw l [] s = Inr (False, l, [], s)
     \<and> (events \<noteq> [] \<and> gradient s = None \<longrightarrow> draw l events s = Inr (True, l, events, s))
     \<and> (events \<noteq> [] \<and> table_built s g \<and> (\<forall>e\<in>set events. valid_event e) \<longrightarrow>
          draw l events s
            = Inr (True,
                   l @ concat (map event_writes (map (resolved_event (background_color s) g) events)),
                   map (resolved_event (background_color s) g) events,
                   s\<lparr>logger := logger s
                       @ concat (map event_errors
                                   (map (resolved_event (background_color s) g) events))\<rparr>))
     \<and> (events \<noteq> [] \<longrightarrow> map_sum id fst (draw l events s) \<noteq> Inr False)"
proof (intro conjI impI)
  show "draw l [] s = Inr (False, l, [], s)"
    by (simp add: draw_def)
  show "draw l events s = Inr (True, l, events, s)" if "events \<noteq> [] \<and> gradient s = None"
    using that by (simp add: draw_def process_events_def)
  show "draw l events s
            = Inr (True,
                   l @ concat (map event_writes (map (resolved_event (background_color s) g) events)),
                   map (resolved_event (background_color s) g) events,
                   s\<lparr>logger := logger s
                       @ concat (map event_errors
                                   (map (resolved_event (background_color s) g) events))\<rparr>)"
    if "events \<noteq> [] \<and> table_built s g \<and> (\<forall>e\<in>set events. valid_event e)"
  proof -
    from that have "table_built s g" "\<forall>e\<in>set events. valid_event e" by simp_all
    from process_events_effect [OF this, of l] that show ?thesis
      by (simp add: draw_def)
  qed
  show "map_sum id fst (draw l events s) \<noteq> Inr False" if "events \<noteq> []"
    using that by (auto simp: draw_def split: sum.splits)
qed

theorem C7_draw_result_witness:
  "[sample_event 1 (Some [\<lparr>coord_y = 2, coord_x = 3\<rparr>]), sample_event 1 None] \<noteq> []
     \<and> table_built sample_state sample_table
     \<and> valid_event (sample_event 1 (Some [\<lparr>coord_y = 2, coord_x = 3\<rparr>]))
     \<and> valid_event (sample_event 1 None)
     \<and> draw [] [sample_event 1 (Some [\<lparr>coord_y = 2, coord_x = 3\<rparr>]), sample_event 1 None] sample_state
          = Inr (True,
                 [(2, 3, Some (1, 1, 1, 1))],
                 [(sample_event 1 (Some [\<lparr>coord_y = 2, coord_x = 3\<rparr>]))
                     \<lparr>data := [REACT_COLOR_KEY \<mapsto> Some (1, 1, 1, 1)]\<rparr>,
                  (sample_event 1 None)\<lparr>data := [REACT_COLOR_KEY \<mapsto> Some (1, 1, 1, 1)]\<rparr>],
                 sample_state\<lparr>logger :=
                     [LogError ''No coordinates available: %s''
                        ((sample_event 1 None)\<lparr>data := [REACT_COLOR_KEY \<mapsto> Some (1, 1, 1, 1)]\<rparr>)]\<rparr>)
     \<and> draw [] [] sample_state = Inr (False, [], [], sample_state)"
proof -
  have bg: "background_color sample_state = Some (0, 0, 0, 1)" and lg: "logger sample_state = []"
    by (simp_all add: sample_state_def)
  have w: "event_writes ((sample_event 1 (Some [\<lparr>coord_y = 2, coord_x = 3\<rparr>]))
              \<lparr>data := [REACT_COLOR_KEY \<mapsto> Some (1, 1, 1, 1)]\<rparr>) = [(2, 3, Some (1, 1, 1, 1))]"
    "event_writes ((sample_event 1 None)\<lparr>data := [REACT_COLOR_KEY \<mapsto> Some (1, 1, 1, 1)]\<rparr>) = []"
    by (simp_all add: event_writes_def sample_event_def)
  have e: "event_errors ((sample_event 1 (Some [\<lparr>coord_y = 2, coord_x = 3\<rparr>]))
              \<lparr>data := [REACT_COLOR_KEY \<mapsto> Some (1, 1, 1, 1)]\<rparr>) = []"
    "event_errors ((sample_event 1 None)\<lparr>data := [REACT_COLOR_KEY \<mapsto> Some (1, 1, 1, 1)]\<rparr>)
       = [LogError ''No coordinates available: %s''
            ((sample_event 1 None)\<lparr>data := [REACT_COLOR_KEY \<mapsto> Some (1, 1, 1, 1)]\<rparr>)]"
    by (simp_all add: event_errors_def sample_event_def)
  from C7_draw_result [of "[]" sample_state
      "[sample_event 1 (Some [\<lparr>coord_y = 2, coord_x = 3\<rparr>]), sample_event 1 None]" sample_table]
    sample_table_built sample_event_valid
  show ?thesis
    by (simp add: bg lg sample_event_resolved w e)
qed

section \<open>Building the table\<close>

text \<open>
  C8: when a color notification carries a defined new value and \<open>background_color\<close> is the
  opaque black \<open>(0, 0, 0, 1)\<close>, the table is rebuilt with \<^verbatim>\<open>None\<close> as the base color in the
  place of black, and the pressed color passed is the current \<open>color\<close> field.
\<close>

theorem C8_black_background_is_none:
  assumes "new ch \<noteq> None" "background_color s = Some (0, 0, 0, 1)"
  shows "update_colors cs ch s
           = s\<lparr>init_colors := True,
                gradient := Some (cs (trait_arg (color s)) ArgNone 100),
                gradient_count := length (cs (trait_arg (color s)) ArgNone 100),
                scheme_calls := scheme_calls s @ [(trait_arg (color s), ArgNone, 100)]\<rparr>"
  using assms by (cases "new ch") (simp_all add: update_colors_def set_colors_def Let_def)

theorem C8_black_background_is_none_witness:
  "new \<lparr>name = ''background_color'', old = None, new = Some (0, 0, 0, 1)\<rparr> \<noteq> None
     \<and> background_color sample_state = Some (0, 0, 0, 1)
     \<and> update_colors sample_scheme \<lparr>name = ''background_color'', old = None, new = Some (0, 0, 0, 1)\<rparr>
          sample_state
        = sample_state\<lparr>init_colors := True,
            gradient := Some (sample_scheme (ArgColor (1, 1, 1, 1)) ArgNone 100),
            gradient_count := 100,
            scheme_calls := [(ArgStr ''#FFFFFF'', ArgStr ''#000000'', 100),
                             (ArgColor (1, 1, 1, 1), ArgNone, 100)]\<rparr>"
proof -
  have n: "new \<lparr>name = ''background_color'', old = None, new = Some ((0, 0, 0, 1) :: rgba)\<rparr> \<noteq> None"
    by simp
  have b: "background_color sample_state = Some (0, 0, 0, 1)"
    by (simp add: sample_state_def)
  from C8_black_background_is_none [OF n b, of sample_scheme] n b show ?thesis
    by (simp add: sample_state_def length_sample_scheme)
qed

lemma set_speed_default: "set_speed DEFAULT_SPEED s = Inr (s\<lparr>key_expire_time := Some (Finite 1)\<rparr>)"
  using set_speed_eq [of 6 s] by (simp add: DEFAULT_SPEED_def)

lemma init_reaction_eq:
  "init_reaction cs s =
     Inr (let s2 = (if init_speed s then s\<lparr>fps := 30\<rparr>
                    else s\<lparr>fps := 30, key_expire_time := Some (Finite 1)\<rparr>)
          in if init_colors s then s2
             else set_colors cs (ArgStr ''#000000'') (ArgStr ''#FFFFFF'') s2)"
  by (simp add: init_reaction_def set_speed_default Let_def)

text \<open>
  C10: when the constructor finds no colors set, it builds the table with the literal
  \<^verbatim>\<open>"#000000"\<close> as the base color and \<^verbatim>\<open>"#FFFFFF"\<close> as the pressed color, also when the
  \<open>background_color\<close> trait is opaque black: the replacement of black by \<^verbatim>\<open>None\<close> that a
  notification performs is not made here. With a color library as the specification
  describes it, the background end of the default table is the color of \<^verbatim>\<open>"#000000"\<close>,
  where a notification with a black background gives the library's own default.
\<close>

theorem C10_default_gradient_base:
  assumes "\<not> init_colors s"
  shows "map_sum id (\<lambda>s'. (gradient s', scheme_calls s', init_colors s')) (init_reaction cs s)
           = Inr (Some (cs (ArgStr ''#FFFFFF'') (ArgStr ''#000000'') 100),
                  scheme_calls s @ [(ArgStr ''#FFFFFF'', ArgStr ''#000000'', 100)],
                  False)
     \<and> (scheme_ends cs dflt html \<longrightarrow>
          map_sum id (\<lambda>s'. map_option last (gradient s')) (init_reaction cs s)
            = Inr (Some (html ''#000000'')))
     \<and> (scheme_ends cs dflt html \<and> new ch \<noteq> None \<and> background_color s = Some (0, 0, 0, 1) \<longrightarrow>
          scheme_calls (update_colors cs ch s) = scheme_calls s @ [(trait_arg (color s), ArgNone, 100)]
          \<and> map_option last (gradient (update_colors cs ch s)) = Some (dflt (trait_arg (color s))))"
  using assms
  by (auto simp: init_reaction_eq set_colors_def Let_def scheme_ends_def update_colors_def)

lemma sample_scheme_ends: "scheme_ends sample_scheme sample_default sample_html"
  by (simp add: scheme_ends_def sample_scheme_def last_map)

lemma sample_scheme_length: "scheme_length sample_scheme"
  by (simp add: scheme_length_def length_sample_scheme)

theorem C10_default_gradient_base_witness:
  "\<not> init_colors (fresh (Some (0, 0, 0, 1)) None)
     \<and> scheme_ends sample_scheme sample_default sample_html
     \<and> new \<lparr>name = ''background_color'', old = None, new = Some (0, 0, 0, 1)\<rparr> \<noteq> None
     \<and> background_color (fresh (Some (0, 0, 0, 1)) None) = Some (0, 0, 0, 1)
     \<and> map_sum id (\<lambda>s'. (gradient s', scheme_calls s', init_colors s'))
          (init_reaction sample_scheme (fresh (Some (0, 0, 0, 1)) None))
        = Inr (Some sample_table, [(ArgStr ''#FFFFFF'', ArgStr ''#000000'', 100)], False)
     \<and> map_sum id (\<lambda>s'. map_option last (gradient s'))
          (init_reaction sample_scheme (fresh (Some (0, 0, 0, 1)) None))
        = Inr (Some (0, 0, 0, 1))
     \<and> map_option last
          (gradient (update_colors sample_scheme
             \<lparr>name = ''background_color'', old = None, new = Some (0, 0, 0, 1)\<rparr>
             (fresh (Some (0, 0, 0, 1)) None)))
        = Some (1 / 2, 1 / 2, 1 / 2, 1)"
proof -
  have i: "\<not> init_colors (fresh (Some (0, 0, 0, 1)) None)"
    by (simp add: fresh_def)
  have n: "new \<lparr>name = ''background_color'', old = None, new = Some ((0, 0, 0, 1) :: rgba)\<rparr> \<noteq> None"
    by simp
  have b: "background_color (fresh (Some (0, 0, 0, 1)) None) = Some (0, 0, 0, 1)"
    by (simp add: fresh_def)
  from C10_default_gradient_base [OF i, of sample_scheme sample_default sample_html
      "\<lparr>name = ''background_color'', old = None, new = Some (0, 0, 0, 1)\<rparr>"]
    i n b sample_scheme_ends
  show ?thesis
    by (simp add: sample_table_def sample_html_def sample_default_def) (simp add: fresh_def)
qed

section \<open>The length of the table over the life of an object\<close>

lemma same_but_logger: "\<exists>lg. s = s\<lparr>logger := lg\<rparr>"
  by (rule exI [of _ "logger s"]) simp

lemma react_keys_state:
  assumes "react_keys l e s = Inr (l', s')"
  shows "\<exists>lg. s' = s\<lparr>logger := lg\<rparr>"
  using assms
  by (auto simp: react_keys_def no_coords_def same_but_logger split: option.splits if_splits)

lemma process_loop_state:
  assumes "process_loop g events l rest s = Inr (l', rest', s')"
  shows "\<exists>lg. s' = s\<lparr>logger := lg\<rparr>"
  using assms
proof (induction rest arbitrary: l s l' rest' s')
  case Nil
  then show ?case by (simp add: same_but_logger)
next
  case (Cons e rest)
  from Cons.prems obtain e' l1 s1 l2 rest2 where
    rk: "react_keys l e' s = Inr (l1, s1)"
    and rec: "process_loop g events l1 rest s1 = Inr (l2, rest2, s')"
    by (auto split: sum.splits if_splits)
  from react_keys_state [OF rk] obtain lg1 where s1: "s1 = s\<lparr>logger := lg1\<rparr>" by blast
  from Cons.IH [OF rec] obtain lg2 where "s' = s1\<lparr>logger := lg2\<rparr>" by blast
  with s1 have "s' = s\<lparr>logger := lg2\<rparr>" by simp
  then show ?case by blast
qed

lemma draw_state:
  assumes "draw l events s = Inr (changed, l', events', s')"
  shows "\<exists>lg. s' = s\<lparr>logger := lg\<rparr>"
proof -
  show ?thesis
  proof (cases "gradient s")
    case None
    with assms have "s' = s"
      by (auto simp: draw_def process_events_def split: if_splits)
    then show ?thesis by (simp add: same_but_logger)
  next
    case (Some g)
    show ?thesis
    proof (cases "events = []")
      case True
      with assms have "s' = s" by (simp add: draw_def)
      then show ?thesis by (simp add: same_but_logger)
    next
      case False
      with assms Some have "process_loop g events l events s = Inr (l', events', s')"
        by (auto simp: draw_def process_events_def split: sum.splits)
      then show ?thesis by (rule process_loop_state)
    qed
  qed
qed

lemma table_sized_logger [simp]: "table_sized (s\<lparr>logger := lg\<rparr>) = table_sized s"
  by (simp add: table_sized_def split: option.splits)

lemma gradient_logger [simp]: "gradient (s\<lparr>logger := lg\<rparr>) = gradient s"
  by simp

lemma table_sized_set_colors:
  assumes "scheme_length cs" "list_all (\<lambda>call. snd (snd call) = 100) (scheme_calls s)"
  shows "table_sized (set_colors cs b c s)" "gradient (set_colors cs b c s) \<noteq> None"
  using assms by (simp_all add: table_sized_def set_colors_def Let_def scheme_length_def)

lemma table_sized_update_colors:
  assumes "scheme_length cs" "table_sized s"
  shows "table_sized (update_colors cs ch (s\<lparr>background_color := bg, color := fg\<rparr>))"
    and "gradient s \<noteq> None \<Longrightarrow>
           gradient (update_colors cs ch (s\<lparr>background_color := bg, color := fg\<rparr>)) \<noteq> None"
proof -
  from assms(2) have calls: "list_all (\<lambda>call. snd (snd call) = 100)
      (scheme_calls (s\<lparr>background_color := bg, color := fg, init_colors := True\<rparr>))"
    by (simp add: table_sized_def)
  note built = table_sized_set_colors [OF assms(1) calls]
  from assms(2) have keep: "table_sized (s\<lparr>background_color := bg, color := fg\<rparr>)"
    by (simp add: table_sized_def split: option.splits)
  show "table_sized (update_colors cs ch (s\<lparr>background_color := bg, color := fg\<rparr>))"
    using built(1) keep by (simp add: update_colors_def Let_def)
  show "gradient (update_colors cs ch (s\<lparr>background_color := bg, color := fg\<rparr>)) \<noteq> None"
    if "gradient s \<noteq> None"
    using built(2) that by (simp add: update_colors_def Let_def)
qed

lemma table_sized_change_speed:
  assumes "change_speed ch (s\<lparr>speed := v\<rparr>) = Inr s'"
  shows "table_sized s' = table_sized s" "gradient s' = gradient s"
  using assms
  by (auto simp: change_speed_def set_speed_def Let_def table_sized_def split: sum.splits option.splits)

lemma notify_sized:
  assumes "scheme_length cs" "table_sized s" "notify cs n s = Inr s'"
  shows "table_sized s'" and "gradient s \<noteq> None \<Longrightarrow> gradient s' \<noteq> None"
proof -
  show "table_sized s'"
  proof (cases n)
    case (ColorNotify bg fg ch)
    with assms(3) table_sized_update_colors(1) [OF assms(1,2)] show ?thesis by auto
  next
    case (SpeedNotify ch)
    with assms(2,3) table_sized_change_speed(1) show ?thesis by auto
  qed
  show "gradient s' \<noteq> None" if "gradient s \<noteq> None"
  proof (cases n)
    case (ColorNotify bg fg ch)
    with assms(3) table_sized_update_colors(2) [OF assms(1,2) that] show ?thesis by auto
  next
    case (SpeedNotify ch)
    with assms(3) that table_sized_change_speed(2) show ?thesis by auto
  qed
qed

lemma notify_all_sized:
  assumes "scheme_length cs" "table_sized s" "notify_all cs ns s = Inr s'"
  shows "table_sized s'"
  using assms(2,3)
proof (induction ns arbitrary: s)
  case Nil
  then show ?case by simp
next
  case (Cons n ns)
  from Cons.prems(2) obtain s1 where n: "notify cs n s = Inr s1" and r: "notify_all cs ns s1 = Inr s'"
    by (auto split: sum.splits)
  from notify_sized(1) [OF assms(1) Cons.prems(1) n] r show ?case
    by (rule Cons.IH)
qed

lemma init_reaction_sized:
  assumes "scheme_length cs" "table_sized s"
  shows "init_reaction cs s = Inr s' \<Longrightarrow> table_sized s' \<and> gradient s' \<noteq> None"
proof (cases "init_colors s")
  case True
  assume "init_reaction cs s = Inr s'"
  with True assms(2) show ?thesis
    by (auto simp: init_reaction_eq Let_def table_sized_def split: option.splits if_splits)
next
  case False
  assume i: "init_reaction cs s = Inr s'"
  define s2 where "s2 = (if init_speed s then s\<lparr>fps := 30\<rparr>
      else s\<lparr>fps := 30, key_expire_time := Some (Finite 1)\<rparr>)"
  from assms(2) have "list_all (\<lambda>call. snd (snd call) = 100) (scheme_calls s2)"
    by (simp add: table_sized_def s2_def)
  from table_sized_set_colors [OF assms(1) this, of "ArgStr ''#000000''" "ArgStr ''#FFFFFF''"]
  have "table_sized (set_colors cs (ArgStr ''#000000'') (ArgStr ''#FFFFFF'') s2)
      \<and> gradient (set_colors cs (ArgStr ''#000000'') (ArgStr ''#FFFFFF'') s2) \<noteq> None"
    by simp
  moreover from i False have "s' = set_colors cs (ArgStr ''#000000'') (ArgStr ''#FFFFFF'') s2"
    by (simp add: init_reaction_eq Let_def s2_def)
  ultimately show ?thesis by simp
qed

lemma act_sized:
  assumes "scheme_length cs" "table_sized s" "gradient s \<noteq> None" "act cs a s = Inr s'"
  shows "table_sized s' \<and> gradient s' \<noteq> None"
proof (cases a)
  case (Notify n)
  with assms(4) have "notify cs n s = Inr s'" by simp
  from notify_sized [OF assms(1,2) this] assms(3) show ?thesis by simp
next
  case (Frame l events)
  with assms(4) obtain changed l' events' where "draw l events s = Inr (changed, l', events', s')"
    by (auto split: sum.splits)
  from draw_state [OF this] obtain lg where "s' = s\<lparr>logger := lg\<rparr>" by blast
  with assms(2,3) show ?thesis by simp
qed

lemma run_sized:
  assumes "scheme_length cs" "table_sized s" "gradient s \<noteq> None" "run cs acts s = Inr s'"
  shows "table_sized s' \<and> gradient s' \<noteq> None"
  using assms(2,3,4)
proof (induction acts arbitrary: s)
  case Nil
  then show ?case by simp
next
  case (Cons a acts)
  from Cons.prems(3) obtain s1 where a: "act cs a s = Inr s1" and r: "run cs acts s1 = Inr s'"
    by (auto split: sum.splits)
  from act_sized [OF assms(1) Cons.prems(1,2) a]
  have "table_sized s1" "gradient s1 \<noteq> None" by simp_all
  from this r show ?case by (rule Cons.IH)
qed

lemma table_sized_fresh: "table_sized (fresh bg fg)"
  by (simp add: table_sized_def fresh_def)

text \<open>
  C9: every build of the table asks the color library for 100 steps and stores the length
  of what it returns as the count; with a library that returns as many entries as steps
  were asked for, an object has, from its construction on and after any sequence of
  notifications and frames, a table of exactly 100 entries and a count of 100.
\<close>

theorem C9_table_length:
  assumes "scheme_length cs" "construct cs bg fg early = Inr s0" "run cs acts s0 = Inr s"
  shows "map_option length (gradient s) = Some 100 \<and> gradient_count s = 100
     \<and> list_all (\<lambda>call. snd (snd call) = 100) (scheme_calls s)
     \<and> gradient (set_colors cs b c s) = Some (cs c b 100)
     \<and> gradient_count (set_colors cs b c s) = length (cs c b 100)
     \<and> length (cs c b 100) = 100"
proof -
  from assms(2) obtain s1 where early: "notify_all cs early (fresh bg fg) = Inr s1"
    and init: "init_reaction cs s1 = Inr s0"
    by (auto simp: construct_def split: sum.splits)
  from notify_all_sized [OF assms(1) table_sized_fresh early] have "table_sized s1" .
  from init_reaction_sized [OF assms(1) this init] have "table_sized s0" "gradient s0 \<noteq> None"
    by simp_all
  from run_sized [OF assms(1) this assms(3)] have "table_sized s" "gradient s \<noteq> None"
    by simp_all
  then have "map_option length (gradient s) = Some 100 \<and> gradient_count s = 100
     \<and> list_all (\<lambda>call. snd (snd call) = 100) (scheme_calls s)"
    by (auto simp: table_sized_def)
  moreover have "gradient (set_colors cs b c s) = Some (cs c b 100)"
    "gradient_count (set_colors cs b c s) = length (cs c b 100)"
    by (simp_all add: set_colors_def Let_def)
  moreover from assms(1) have "length (cs c b 100) = 100"
    by (simp add: scheme_length_def)
  ultimately show ?thesis by simp
qed

lemma construct_sample:
  "construct sample_scheme (Some (0, 0, 0, 1)) (Some (1, 1, 1, 1)) [] = Inr sample_state"
  by (simp add: construct_def init_reaction_eq fresh_def set_colors_def Let_def sample_state_def
      sample_table_def length_sample_scheme DEFAULT_SPEED_def)

theorem C9_table_length_witness:
  "scheme_length sample_scheme
     \<and> construct sample_scheme (Some (0, 0, 0, 1)) (Some (1, 1, 1, 1)) [] = Inr sample_state
     \<and> run sample_scheme
          [Notify (ColorNotify (Some (1, 0, 0, 1)) (Some (1, 1, 1, 1))
                     \<lparr>name = ''background_color'', old = Some (0, 0, 0, 1), new = Some (1, 0, 0, 1)\<rparr>),
           Frame [] []]
          sample_state
        = Inr (sample_state\<lparr>background_color := Some (1, 0, 0, 1), init_colors := True,
                 gradient := Some (sample_scheme (ArgColor (1, 1, 1, 1)) (ArgColor (1, 0, 0, 1)) 100),
                 scheme_calls := [(ArgStr ''#FFFFFF'', ArgStr ''#000000'', 100),
                                  (ArgColor (1, 1, 1, 1), ArgColor (1, 0, 0, 1), 100)]\<rparr>)
     \<and> map_option length (gradient (sample_state\<lparr>background_color := Some (1, 0, 0, 1), init_colors := True,
                 gradient := Some (sample_scheme (ArgColor (1, 1, 1, 1)) (ArgColor (1, 0, 0, 1)) 100),
                 scheme_calls := [(ArgStr ''#FFFFFF'', ArgStr ''#000000'', 100),
                                  (ArgColor (1, 1, 1, 1), ArgColor (1, 0, 0, 1), 100)]\<rparr>)) = Some 100"
proof -
  have r: "run sample_scheme
          [Notify (ColorNotify (Some (1, 0, 0, 1)) (Some (1, 1, 1, 1))
                     \<lparr>name = ''background_color'', old = Some (0, 0, 0, 1), new = Some (1, 0, 0, 1)\<rparr>),
           Frame [] []]
          sample_state
        = Inr (sample_state\<lparr>background_color := Some (1, 0, 0, 1), init_colors := True,
                 gradient := Some (sample_scheme (ArgColor (1, 1, 1, 1)) (ArgColor (1, 0, 0, 1)) 100),
                 scheme_calls := [(ArgStr ''#FFFFFF'', ArgStr ''#000000'', 100),
                                  (ArgColor (1, 1, 1, 1), ArgColor (1, 0, 0, 1), 100)]\<rparr>)"
    by (simp add: update_colors_def set_colors_def Let_def draw_def sample_state_def
        length_sample_scheme)
  from C9_table_length [OF sample_scheme_length construct_sample r] sample_scheme_length
    construct_sample r
  show ?thesis by simp
qed

section \<open>Notifications of both colors, and the cached color\<close>

text \<open>
  What a transaction that changes both colors to defined values does: \<^verbatim>\<open>_update_colors\<close>
  runs once for each changed field, and each run calls \<^verbatim>\<open>color_scheme\<close>, with the same
  arguments. The \<^verbatim>\<open>hold_trait_notifications\<close> block inside the observer does not merge the
  two runs.
\<close>

lemma update_both_two_builds:
  assumes "bg \<noteq> None" "fg \<noteq> None" "background_color s \<noteq> bg" "color s \<noteq> fg"
  shows "update_both cs bg fg s
           = s\<lparr>background_color := bg, color := fg, init_colors := True,
                gradient := Some (cs (trait_arg fg)
                                     (if bg = Some (0, 0, 0, 1) then ArgNone else trait_arg bg) 100),
                gradient_count := length (cs (trait_arg fg)
                                     (if bg = Some (0, 0, 0, 1) then ArgNone else trait_arg bg) 100),
                scheme_calls := scheme_calls s
                  @ [(trait_arg fg, if bg = Some (0, 0, 0, 1) then ArgNone else trait_arg bg, 100),
                     (trait_arg fg, if bg = Some (0, 0, 0, 1) then ArgNone else trait_arg bg, 100)]\<rparr>"
  using assms
  by (cases bg; cases fg) (simp_all add: update_both_def update_colors_def set_colors_def Let_def)

text \<open>
  C3: a transaction that updates \<open>background_color\<close> and \<open>color\<close> together is to build the
  table once. The code builds it twice: changing the sample object's background to red and
  its color to green makes two calls of \<^verbatim>\<open>color_scheme\<close>, both with green and red.
\<close>

theorem C3_rebuilt_twice:
  "background_color sample_state \<noteq> Some (1, 0, 0, 1)
     \<and> color sample_state \<noteq> Some (0, 1, 0, 1)
     \<and> scheme_calls (update_both sample_scheme (Some (1, 0, 0, 1)) (Some (0, 1, 0, 1)) sample_state)
        = scheme_calls sample_state
            @ [(ArgColor (0, 1, 0, 1), ArgColor (1, 0, 0, 1), 100),
               (ArgColor (0, 1, 0, 1), ArgColor (1, 0, 0, 1), 100)]
     \<and> length (scheme_calls (update_both sample_scheme (Some (1, 0, 0, 1)) (Some (0, 1, 0, 1)) sample_state))
        = length (scheme_calls sample_state) + 2
     \<and> length (scheme_calls (update_both sample_scheme (Some (1, 0, 0, 1)) (Some (0, 1, 0, 1)) sample_state))
        \<noteq> length (scheme_calls sample_state) + 1"
proof -
  have b: "background_color sample_state \<noteq> Some (1, 0, 0, 1)"
    and f: "color sample_state \<noteq> Some (0, 1, 0, 1)"
    by (simp_all add: sample_state_def)
  have d: "Some (1, 0, 0, 1) \<noteq> (None :: rgba option)" "Some (0, 1, 0, 1) \<noteq> (None :: rgba option)"
    by simp_all
  from update_both_two_builds [OF d b f, of sample_scheme] b f show ?thesis
    by simp
qed

text \<open>
  C2: the color resolved for an event is stored in its data bag under \<open>REACT_COLOR_KEY\<close>,
  but a color already stored there is not reused. The guard of the computation asks
  whether the key is an element of the batch (\<open>key_never_in_batch\<close>: it never is), not
  whether the bag has it. Here the bag holds red from an earlier pass; the frame stores
  the table's white over it and writes white to the layer.
\<close>

theorem C2_stored_color_recomputed:
  "process_events []
     [(sample_event 1 (Some [\<lparr>coord_y = 0, coord_x = 0\<rparr>]))
        \<lparr>data := [REACT_COLOR_KEY \<mapsto> Some (1, 0, 0, 1)]\<rparr>]
     sample_state
   = Inr ([(0, 0, Some (1, 1, 1, 1))],
          [(sample_event 1 (Some [\<lparr>coord_y = 0, coord_x = 0\<rparr>]))
             \<lparr>data := [REACT_COLOR_KEY \<mapsto> Some (1, 1, 1, 1)]\<rparr>],
          sample_state)"
proof -
  have v: "\<forall>e\<in>set [(sample_event 1 (Some [\<lparr>coord_y = 0, coord_x = 0\<rparr>]))
        \<lparr>data := [REACT_COLOR_KEY \<mapsto> Some (1, 0, 0, 1)]\<rparr>]. valid_event e"
    using sample_doubles by (simp add: valid_event_def sample_event_def)
  have r: "resolved_event (Some (0, 0, 0, 1)) sample_table
      ((sample_event 1 (Some [\<lparr>coord_y = 0, coord_x = 0\<rparr>]))\<lparr>data := [REACT_COLOR_KEY \<mapsto> Some (1, 0, 0, 1)]\<rparr>)
     = (sample_event 1 (Some [\<lparr>coord_y = 0, coord_x = 0\<rparr>]))\<lparr>data := [REACT_COLOR_KEY \<mapsto> Some (1, 1, 1, 1)]\<rparr>"
    using sample_table_built
    by (simp add: resolved_event_def spec_fade_color_def event_fraction_def sample_event_def
        table_built_def sample_indices sample_table_entries)
  have bg: "background_color sample_state = Some (0, 0, 0, 1)"
    by (simp add: sample_state_def)
  show ?thesis
    by (simp add: process_events_effect [OF sample_table_built v] bg r event_writes_def
        event_errors_def) (simp add: sample_event_def sample_state_def)
qed

end
